theory Spec2Isabelle
  imports Main
begin

section \<open>Values, errors and asynchronous results\<close>

text \<open>
  The class \<open>BiconomySmartAccountV2\<close> of
  \<open>src/modules/rpc/aa/smart-accounts/biconomy-smart-account-v2.ts\<close> builds unsigned
  user operations. Every method is \<open>async\<close>: it reads and writes the two cache fields
  of the instance and either resolves with a value or rejects with an error. A method
  is embedded as a function from the instance to the settled outcome and the instance
  afterwards.

  Three kinds of rejection occur: the \<open>Error\<close> thrown by the batch guard of
  \<open>createUnsignedUserOp\<close>, the \<open>TypeError\<close> the runtime raises when a property of
  \<open>undefined\<close> is read, and a rejection raised by an external collaborator
  (provider, contracts, fee source, encoders), which carries the collaborator's message.
\<close>

datatype error = BatchNotSupported | UndefinedRead | Rejected string

text \<open>
  A field of a JavaScript object holds either a plain value or a promise. A promise
  is represented by the outcome it settles to.
\<close>

datatype 'a js_value = Plain 'a | Promise "error + 'a"

section \<open>Data\<close>

text \<open>\<open>interface TransactionDetailsForUserOp\<close>; an optional field is an option.\<close>

record transaction_details =
  d_gasLimit :: "int option"
  d_value :: "int option"
  d_to :: string
  d_data :: string
  d_maxPriorityFeePerGas :: "int option"
  d_maxFeePerGas :: "int option"
  d_nonce :: "int option"

text \<open>
  The object literal \<open>partialUserOp\<close>. The type of \<open>sender\<close> is a parameter: the
  method stores a js_value there, \<open>resolveProperties\<close> yields the record with a string.
\<close>

record 's partial_user_op =
  sender :: 's
  nonce :: int
  initCode :: string
  callData :: string
  callGasLimit :: string
  verificationGasLimit :: int
  maxFeePerGas :: "int option"
  maxPriorityFeePerGas :: "int option"
  paymasterAndData :: string

text \<open>The returned object: \<open>partialUserOp\<close> spread and two more fields.\<close>

record 's user_op = "'s partial_user_op" +
  preVerificationGas :: "int js_value"
  signature :: string

text \<open>The argument of \<open>provider.estimateGas\<close>.\<close>

record call_request =
  req_from :: "string option"
  req_to :: string
  req_data :: string

record fee_data =
  fee_maxFeePerGas :: "int option"
  fee_maxPriorityFeePerGas :: "int option"

text \<open>An argument of viem's \<open>encodeFunctionData\<close>, by its ABI type.\<close>

datatype abi_value = AbiAddress string | AbiBytes string | AbiUint int

section \<open>External collaborators\<close>

text \<open>
  Everything the class calls and does not define is a field of the environment. A call
  answers \<open>Inr\<close> a value or \<open>Inl\<close> the message of its rejection.
  \<^item> \<open>getAddressForCounterFactualAccount factory module setupData index\<close>: the view call on
    the factory contract at address \<open>factory\<close>;
  \<^item> \<open>getCode\<close>, \<open>estimateGas\<close>, \<open>getNetwork\<close> (the chain id): the provider;
  \<^item> \<open>getFeeDataFromParticle\<close>: the fee source of \<open>../utils\<close>;
  \<^item> \<open>accountNonce account args\<close>: the view call \<open>nonce\<close> sent to the account contract
    with the arguments \<open>args\<close>;
  \<^item> \<open>populateExecute account to value data\<close>: the data of
    \<open>execute_ncC.populateTransaction(to, value, data)\<close> on the account contract;
  \<^item> \<open>encodeFunctionData name args\<close>: viem's encoder applied to the ABI item of that name;
  \<^item> \<open>calcPreVerificationGas\<close>: the function of \<open>@account-abstraction/sdk\<close>;
  \<^item> \<open>toHexString\<close>: \<open>BigNumber.toHexString\<close> of \<open>common/bignumber\<close>;
  \<^item> \<open>signMessage\<close>, \<open>entryPointGetUserOpHash\<close>: the owner's signer and the EntryPoint
    contract.
  \<open>BigNumber.from(x).eq(0)\<close> and \<open>.add\<close> are equality with zero and addition on \<open>int\<close>.
\<close>

record env =
  getAddressForCounterFactualAccount :: "string \<Rightarrow> string \<Rightarrow> string \<Rightarrow> int \<Rightarrow> string + string"
  getCode :: "string \<Rightarrow> string + string"
  estimateGas :: "call_request \<Rightarrow> string + int"
  getNetwork :: "string + int"
  getFeeDataFromParticle :: "int \<Rightarrow> string + fee_data"
  accountNonce :: "string \<Rightarrow> int list \<Rightarrow> string + int"
  populateExecute :: "string \<Rightarrow> string \<Rightarrow> string \<Rightarrow> string \<Rightarrow> string + string"
  encodeFunctionData :: "string \<Rightarrow> abi_value list \<Rightarrow> string + string"
  calcPreVerificationGas :: "string partial_user_op \<Rightarrow> string + int"
  toHexString :: "int \<Rightarrow> string"
  signMessage :: "string \<Rightarrow> string + string"
  entryPointGetUserOpHash :: "string \<Rightarrow> string user_op \<Rightarrow> string + string"

section \<open>The instance and its methods\<close>

text \<open>
  The fields of an instance the methods use: the owner's address, the addresses the
  constructor received, and the two caches. \<open>smartAccountContract\<close> holds the address
  the contract handle is bound to.
\<close>

record account =
  owner_address :: string
  factoryAddress :: string
  entryPointAddress :: string
  ecdsaOwnership :: string
  accountAddress :: "string option"
  smartAccountContract :: "string option"

definition BiconomySmartAccountV2 :: "string \<Rightarrow> string \<Rightarrow> string \<Rightarrow> string \<Rightarrow> account" where
  "BiconomySmartAccountV2 owner fa ep ecdsaModule =
     \<lparr>owner_address = owner, factoryAddress = fa, entryPointAddress = ep,
      ecdsaOwnership = ecdsaModule, accountAddress = None, smartAccountContract = None\<rparr>"

type_synonym 'a action = "account \<Rightarrow> (error + 'a) \<times> account"

definition succeed :: "'a \<Rightarrow> 'a action" where
  "succeed x = (\<lambda>s. (Inr x, s))"

definition throw :: "error \<Rightarrow> 'a action" where
  "throw e = (\<lambda>s. (Inl e, s))"

text \<open>\<open>await m\<close>, then the rest of the body; a rejection leaves the body.\<close>

definition await :: "'a action \<Rightarrow> ('a \<Rightarrow> 'b action) \<Rightarrow> 'b action" where
  "await m f = (\<lambda>s. case m s of (Inl e, s') \<Rightarrow> (Inl e, s') | (Inr x, s') \<Rightarrow> f x s')"

text \<open>An awaited call of a collaborator.\<close>

definition external :: "string + 'a \<Rightarrow> 'a action" where
  "external r = (case r of Inl m \<Rightarrow> throw (Rejected m) | Inr x \<Rightarrow> succeed x)"

text \<open>Reading a field of \<open>this\<close>.\<close>

definition field :: "(account \<Rightarrow> 'a) \<Rightarrow> 'a action" where
  "field f = (\<lambda>s. (Inr (f s), s))"

text \<open>
  An \<open>async\<close> method called without \<open>await\<close>: the caller goes on with the promise,
  whatever it settles to.
\<close>

definition start :: "'a action \<Rightarrow> ('a js_value) action" where
  "start m = (\<lambda>s. case m s of (r, s') \<Rightarrow> (Inr (Promise r), s'))"

text \<open>\<open>if (this.accountAddress)\<close>: \<open>undefined\<close> and the empty string are falsy.\<close>

definition truthy :: "string option \<Rightarrow> bool" where
  "truthy v = (case v of None \<Rightarrow> False | Some a \<Rightarrow> a \<noteq> [])"

text \<open>\<open>'0x2ede3bc0000000000000000000000000' + this.owner.address.slice(2, 42)\<close>\<close>

definition moduleSetupData :: "account \<Rightarrow> string" where
  "moduleSetupData s = ''0x2ede3bc0000000000000000000000000'' @ take 40 (drop 2 (owner_address s))"

definition getAccountAddress :: "env \<Rightarrow> string action" where
  "getAccountAddress env = (\<lambda>s.
     if truthy (accountAddress s) then (Inr (the (accountAddress s)), s)
     else (case getAddressForCounterFactualAccount env (factoryAddress s) (ecdsaOwnership s)
                  (moduleSetupData s) 0 of
             Inl m \<Rightarrow> (Inl (Rejected m), s)
           | Inr a \<Rightarrow> (Inr a, s\<lparr>accountAddress := Some a\<rparr>)))"

definition getAccountContract :: "env \<Rightarrow> string action" where
  "getAccountContract env = (\<lambda>s.
     case smartAccountContract s of
       Some c \<Rightarrow> (Inr c, s)
     | None \<Rightarrow> await (getAccountAddress env)
                 (\<lambda>a s'. (Inr a, s'\<lparr>smartAccountContract := Some a\<rparr>)) s)"

definition encodeExecute :: "env \<Rightarrow> string \<Rightarrow> string \<Rightarrow> string \<Rightarrow> string action" where
  "encodeExecute env to val dat =
     await (getAccountContract env) (\<lambda>simpleAccount.
       external (populateExecute env simpleAccount to val dat))"

text \<open>\<open>x ?? 0\<close>\<close>

definition orZero :: "int option \<Rightarrow> int" where
  "orZero x = (case x of None \<Rightarrow> 0 | Some v \<Rightarrow> v)"

text \<open>
  \<open>detailsForUserOp\<close> is \<open>undefined\<close> when the caller read it from an empty array;
  \<open>detailsForUserOp.value\<close> then raises. \<open>to: this.getAccountAddress()\<close> hands the
  provider a promise, which \<open>estimateGas\<close> resolves before it sends the request.
\<close>

definition encodeUserOpCallDataAndGasLimit ::
  "env \<Rightarrow> transaction_details option \<Rightarrow> (string \<times> string) action" where
  "encodeUserOpCallDataAndGasLimit env detailsForUserOp =
     (case detailsForUserOp of
        None \<Rightarrow> throw UndefinedRead
      | Some d \<Rightarrow>
          await (encodeExecute env (d_to d) (toHexString env (orZero (d_value d))) (d_data d))
            (\<lambda>cd.
               if orZero (d_gasLimit d) = 0
               then await (field entryPointAddress) (\<lambda>ep.
                    await (getAccountAddress env) (\<lambda>a.
                    await (external (estimateGas env
                             \<lparr>req_from = Some ep, req_to = a, req_data = cd\<rparr>)) (\<lambda>g.
                    succeed (cd, toHexString env g))))
               else succeed (cd, toHexString env (orZero (d_gasLimit d)))))"

text \<open>\<open>!initCode || initCode === '0x'\<close>; \<open>substring(0, 42)\<close> and \<open>substring(42)\<close>.\<close>

definition estimateCreationGas :: "env \<Rightarrow> string option \<Rightarrow> int action" where
  "estimateCreationGas env ic =
     (if \<not> truthy ic \<or> ic = Some ''0x'' then succeed 0
      else external (estimateGas env
             \<lparr>req_from = None, req_to = take 42 (the ic), req_data = ''0x'' @ drop 42 (the ic)\<rparr>))"

text \<open>
  viem's \<open>concat\<close> on hex strings: \<open>'0x'\<close> followed by every value with its first
  \<open>'0x'\<close> removed (\<open>x.replace('0x', '')\<close>).
\<close>

fun replace0x :: "string \<Rightarrow> string" where
  "replace0x (CHR ''0'' # CHR ''x'' # rest) = rest"
| "replace0x (c # rest) = c # replace0x rest"
| "replace0x [] = []"

definition concatHex :: "string list \<Rightarrow> string" where
  "concatHex vs = ''0x'' @ concat (map replace0x vs)"

text \<open>
  The parameter \<open>index\<close> has the default 0. The body names neither it nor the factory
  contract of the instance: the address and \<open>0n\<close> are literals.
\<close>

definition createInitCode :: "env \<Rightarrow> int \<Rightarrow> string action" where
  "createInitCode env index =
     await (field ecdsaOwnership) (\<lambda>module.
     await (field moduleSetupData) (\<lambda>setup.
     await (external (encodeFunctionData env ''deployCounterFactualAccount''
              [AbiAddress module, AbiBytes setup, AbiUint 0])) (\<lambda>enc.
     succeed (concatHex [''0x000000a56Aaca3e9a4C479ea6b6CD0DbcB6634F5'', enc]))))"

definition getVerificationGasLimit :: "int action" where
  "getVerificationGasLimit = succeed 1500000"

text \<open>
  ethers' \<open>resolveProperties\<close> awaits every property that is a promise and answers the
  object with the resolved values; \<open>sender\<close> is the one property that can be a promise.
  \<open>withSender a userOp\<close> is \<open>userOp\<close> with the sender \<open>a\<close>.
\<close>

definition withSender :: "string \<Rightarrow> ('s, 'z) partial_user_op_scheme \<Rightarrow> string partial_user_op" where
  "withSender a userOp =
     \<lparr>sender = a, nonce = nonce userOp, initCode = initCode userOp, callData = callData userOp,
      callGasLimit = callGasLimit userOp, verificationGasLimit = verificationGasLimit userOp,
      maxFeePerGas = maxFeePerGas userOp, maxPriorityFeePerGas = maxPriorityFeePerGas userOp,
      paymasterAndData = paymasterAndData userOp\<rparr>"

definition resolveProperties :: "(string js_value) partial_user_op \<Rightarrow> (string partial_user_op) action" where
  "resolveProperties userOp =
     (case sender userOp of
        Plain a \<Rightarrow> succeed (withSender a userOp)
      | Promise (Inr a) \<Rightarrow> succeed (withSender a userOp)
      | Promise (Inl e) \<Rightarrow> throw e)"

definition getPreVerificationGas :: "env \<Rightarrow> (string js_value) partial_user_op \<Rightarrow> int action" where
  "getPreVerificationGas env userOp =
     await (resolveProperties userOp) (\<lambda>p. external (calcPreVerificationGas env p))"

text \<open>\<open>code.length > 2\<close>\<close>

definition isAccountDeploied :: "env \<Rightarrow> bool action" where
  "isAccountDeploied env =
     await (getAccountAddress env) (\<lambda>a.
     await (external (getCode env a)) (\<lambda>code.
     succeed (length code > 2)))"

text \<open>
  The contract handle is built from \<open>smartAccountImplementationABI\<close>. A call of a
  method of the handle looks for a function fragment of that name with as many inputs as
  the call has arguments; when there is none, the call rejects with
  \<open>no matching fragment\<close> and nothing is sent. The one fragment named \<open>nonce\<close> in
  that ABI has one input, \<open>uint192 _key\<close>. The calls of \<open>execute_ncC\<close> and, on the
  factory, of \<open>getAddressForCounterFactualAccount\<close> have the three arguments of their
  fragments.
\<close>

definition nonceInputs :: nat where
  "nonceInputs = 1"

definition contractNonce :: "env \<Rightarrow> string \<Rightarrow> int list \<Rightarrow> int action" where
  "contractNonce env accountContract args =
     (if length args = nonceInputs then external (accountNonce env accountContract args)
      else throw (Rejected ''no matching fragment''))"

text \<open>\<open>accountContract.nonce()\<close>: the call has no argument.\<close>

definition getNonce :: "env \<Rightarrow> int action" where
  "getNonce env =
     await (isAccountDeploied env) (\<lambda>deployed.
       if \<not> deployed then succeed 0
       else await (getAccountContract env) (\<lambda>accountContract.
            contractNonce env accountContract []))"

definition signUserOpHash :: "env \<Rightarrow> string \<Rightarrow> string action" where
  "signUserOpHash env userOp = external (signMessage env userOp)"

definition getUserOpHash :: "env \<Rightarrow> string user_op \<Rightarrow> string action" where
  "getUserOpHash env userOp =
     await (field entryPointAddress) (\<lambda>ep. external (entryPointGetUserOpHash env ep userOp))"

text \<open>
  \<open>createUnsignedUserOp(infos, nonce?)\<close>. The second parameter is assigned before it is
  read. \<open>infos[0]\<close> of an empty array is \<open>undefined\<close>. \<open>sender\<close> and
  \<open>preVerificationGas\<close> are assigned the promises of calls that are not awaited; the
  call of \<open>getPreVerificationGas\<close> that is logged is awaited.
\<close>

definition createUnsignedUserOp ::
  "env \<Rightarrow> transaction_details list \<Rightarrow> int option \<Rightarrow> ((string js_value) user_op) action" where
  "createUnsignedUserOp env infos nonce0 =
     (if length infos > 1 then throw BatchNotSupported
      else
        let info = (case infos of [] \<Rightarrow> None | i # _ \<Rightarrow> Some i) in
        await (encodeUserOpCallDataAndGasLimit env info) (\<lambda>(cd, cgl).
        await (case info of
                 None \<Rightarrow> throw UndefinedRead
               | Some d \<Rightarrow> (case d_nonce d of Some n \<Rightarrow> succeed n | None \<Rightarrow> getNonce env)) (\<lambda>n.
        await (if n = 0 then createInitCode env 0 else succeed ''0x'') (\<lambda>ic.
        await (estimateCreationGas env (Some ic)) (\<lambda>initGas.
        await getVerificationGasLimit (\<lambda>base.
        await (external (getNetwork env)) (\<lambda>chainId.
        await (external (getFeeDataFromParticle env chainId)) (\<lambda>feeData.
        await (start (getAccountAddress env)) (\<lambda>senderPromise.
        let partialUserOp =
              \<lparr>sender = senderPromise, nonce = n, initCode = ic, callData = cd, callGasLimit = cgl,
               verificationGasLimit = base + initGas,
               maxFeePerGas = fee_maxFeePerGas feeData,
               maxPriorityFeePerGas = fee_maxPriorityFeePerGas feeData,
               paymasterAndData = ''0x''\<rparr> in
        await (getPreVerificationGas env partialUserOp) (\<lambda>logged.
        await (start (getPreVerificationGas env partialUserOp)) (\<lambda>pvg.
        succeed (partial_user_op.extend partialUserOp
                   \<lparr>preVerificationGas = pvg, signature = ''0x''\<rparr>))))))))))))"

section \<open>Sequences of method calls\<close>

text \<open>
  The methods of the class, as a caller invokes them one after the other on one
  instance. \<open>perform\<close> gives the instance after a call; each call may meet a different
  environment.
\<close>

datatype operation =
    GetAccountAddress
  | CreateUnsignedUserOp "transaction_details list" "int option"
  | EncodeUserOpCallDataAndGasLimit "transaction_details option"
  | EstimateCreationGas "string option"
  | EncodeExecute string string string
  | CreateInitCode int
  | GetVerificationGasLimit
  | GetPreVerificationGas "(string js_value) partial_user_op"
  | GetNonce
  | IsAccountDeploied
  | GetAccountContract
  | SignUserOpHash string
  | GetUserOpHash "string user_op"

fun perform :: "env \<times> operation \<Rightarrow> account \<Rightarrow> account" where
  "perform (env, GetAccountAddress) s = snd (getAccountAddress env s)"
| "perform (env, CreateUnsignedUserOp infos n) s = snd (createUnsignedUserOp env infos n s)"
| "perform (env, EncodeUserOpCallDataAndGasLimit d) s = snd (encodeUserOpCallDataAndGasLimit env d s)"
| "perform (env, EstimateCreationGas ic) s = snd (estimateCreationGas env ic s)"
| "perform (env, EncodeExecute to val dat) s = snd (encodeExecute env to val dat s)"
| "perform (env, CreateInitCode index) s = snd (createInitCode env index s)"
| "perform (env, GetVerificationGasLimit) s = snd (getVerificationGasLimit s)"
| "perform (env, GetPreVerificationGas userOp) s = snd (getPreVerificationGas env userOp s)"
| "perform (env, GetNonce) s = snd (getNonce env s)"
| "perform (env, IsAccountDeploied) s = snd (isAccountDeploied env s)"
| "perform (env, GetAccountContract) s = snd (getAccountContract env s)"
| "perform (env, SignUserOpHash h) s = snd (signUserOpHash env h s)"
| "perform (env, GetUserOpHash userOp) s = snd (getUserOpHash env userOp s)"

fun performAll :: "(env \<times> operation) list \<Rightarrow> account \<Rightarrow> account" where
  "performAll [] s = s"
| "performAll (c # cs) s = performAll cs (perform c s)"

section \<open>Properties of an instance that the methods keep\<close>

text \<open>
  The contract handle of an instance, when there is one, is bound to the address the
  instance resolves to. A new instance has no handle, and \<open>getAccountContract\<close>, the
  only method that assigns it, binds it to the result of \<open>getAccountAddress\<close>.
\<close>

definition consistent :: "env \<Rightarrow> account \<Rightarrow> bool" where
  "consistent env s =
     (case smartAccountContract s of
        None \<Rightarrow> True
      | Some c \<Rightarrow> fst (getAccountAddress env s) = Inr c)"

text \<open>
  \<open>preserves R m\<close>: every run of \<open>m\<close> relates the instance before to the instance
  after by \<open>R\<close>.
\<close>

definition preserves :: "(account \<Rightarrow> account \<Rightarrow> bool) \<Rightarrow> 'a action \<Rightarrow> bool" where
  "preserves R m = (\<forall>s r s'. m s = (r, s') \<longrightarrow> R s s')"

text \<open>
  \<open>sameInstance env s s'\<close>: \<open>s'\<close> has the constructor's fields of \<open>s\<close>,
  \<open>getAccountAddress\<close> answers on it what it answers on \<open>s\<close>, and it is consistent if
  \<open>s\<close> is.
\<close>

definition sameInstance :: "env \<Rightarrow> account \<Rightarrow> account \<Rightarrow> bool" where
  "sameInstance env s s' =
     (owner_address s' = owner_address s \<and> factoryAddress s' = factoryAddress s \<and>
      entryPointAddress s' = entryPointAddress s \<and> ecdsaOwnership s' = ecdsaOwnership s \<and>
      fst (getAccountAddress env s') = fst (getAccountAddress env s) \<and>
      (consistent env s \<longrightarrow> consistent env s'))"

text \<open>\<open>stillCached a s s'\<close>: if \<open>s\<close> caches the address \<open>a\<close>, so does \<open>s'\<close>.\<close>

definition stillCached :: "string \<Rightarrow> account \<Rightarrow> account \<Rightarrow> bool" where
  "stillCached a s s' = (accountAddress s = Some a \<longrightarrow> accountAddress s' = Some a)"

text \<open>\<open>neverRejects m e\<close>: no run of \<open>m\<close> rejects with \<open>e\<close>.\<close>

definition neverRejects :: "'a action \<Rightarrow> error \<Rightarrow> bool" where
  "neverRejects m e = (\<forall>s s'. m s \<noteq> (Inl e, s'))"

section \<open>An example environment\<close>

text \<open>
  The end-to-end scenarios: owner \<open>0xAAAA...\<close>, destination \<open>0xBBBB...\<close>, value 0, data
  \<open>0x\<close>; the account undeployed (code \<open>0x\<close>), or deployed (code \<open>0x6080\<close>) with the
  on-chain nonce 3.
  The encoders of the example write the selector and then the digits of the arguments in
  order; \<open>exampleHex\<close> writes a number as \<open>BigNumber.toHexString\<close> does, with an even
  number of digits.
\<close>

fun hexDigits :: "nat \<Rightarrow> string" where
  "hexDigits n =
     (if n < 16 then [''0123456789abcdef'' ! n]
      else hexDigits (n div 16) @ [''0123456789abcdef'' ! (n mod 16)])"

definition exampleHex :: "int \<Rightarrow> string" where
  "exampleHex n =
     (let ds = hexDigits (nat \<bar>n\<bar>)
      in (if n < 0 then ''-'' else []) @ ''0x'' @ (if even (length ds) then ds else CHR ''0'' # ds))"

fun exampleArg :: "abi_value \<Rightarrow> string" where
  "exampleArg (AbiAddress a) = drop 2 a"
| "exampleArg (AbiBytes b) = drop 2 b"
| "exampleArg (AbiUint n) = hexDigits (nat n)"

definition exampleEnv :: "string \<Rightarrow> env" where
  "exampleEnv code =
     \<lparr>getAddressForCounterFactualAccount =
        (\<lambda>factory module setup index. Inr ''0x2222222222222222222222222222222222222222''),
      getCode = (\<lambda>a. Inr code),
      estimateGas = (\<lambda>r. case req_from r of None \<Rightarrow> Inr 250000 | Some ep \<Rightarrow> Inr 60000),
      getNetwork = Inr 137,
      getFeeDataFromParticle =
        (\<lambda>chainId. Inr \<lparr>fee_maxFeePerGas = Some 30000000000,
                         fee_maxPriorityFeePerGas = Some 1000000000\<rparr>),
      accountNonce = (\<lambda>a args. Inr 3),
      populateExecute = (\<lambda>a to val dat. Inr (''0x0000189a'' @ drop 2 to @ drop 2 val @ drop 2 dat)),
      encodeFunctionData = (\<lambda>name args. Inr (''0xdf20ffbc'' @ concat (map exampleArg args))),
      calcPreVerificationGas =
        (\<lambda>p. Inr (21000 + 16 * int (length (initCode p)) + 16 * int (length (callData p)))),
      toHexString = exampleHex,
      signMessage = (\<lambda>h. Inr (''0x'' @ drop 2 h)),
      entryPointGetUserOpHash = (\<lambda>ep userOp. Inr (''0x'' @ drop 2 (callData userOp)))\<rparr>"

definition exampleAccount :: account where
  "exampleAccount =
     BiconomySmartAccountV2 ''0xAAAAAAAAAAAAAAAAAAAAAAAAAAAAAAAAAAAAAAAA''
       ''0x000000a56Aaca3e9a4C479ea6b6CD0DbcB6634F5''
       ''0x5FF137D4b0FDCD49DcA30c7CF57E578a026d2789''
       ''0x0000001c5b32F37F5beA87BDD5374eB2aC54eA8e''"

definition exampleDetails :: transaction_details where
  "exampleDetails =
     \<lparr>d_gasLimit = None, d_value = Some 0, d_to = ''0xBBBBBBBBBBBBBBBBBBBBBBBBBBBBBBBBBBBBBBBB'',
      d_data = ''0x'', d_maxPriorityFeePerGas = None, d_maxFeePerGas = None, d_nonce = None\<rparr>"

text \<open>The instance after its address and its contract handle are cached.\<close>

definition exampleResolved :: account where
  "exampleResolved =
     exampleAccount
       \<lparr>accountAddress := Some ''0x2222222222222222222222222222222222222222'',
        smartAccountContract := Some ''0x2222222222222222222222222222222222222222''\<rparr>"

text \<open>The operation built for the undeployed account: nonce 0, with init-code.\<close>

definition exampleFirstOp :: "(string js_value) user_op" where
  "exampleFirstOp =
     \<lparr>sender = Promise (Inr ''0x2222222222222222222222222222222222222222''),
      nonce = 0,
      initCode = ''0x000000a56Aaca3e9a4C479ea6b6CD0DbcB6634F5df20ffbc0000001c5b32F37F5beA87BDD5374eB2aC54eA8e2ede3bc0000000000000000000000000AAAAAAAAAAAAAAAAAAAAAAAAAAAAAAAAAAAAAAAA0'',
      callData = ''0x0000189aBBBBBBBBBBBBBBBBBBBBBBBBBBBBBBBBBBBBBBBB00'',
      callGasLimit = ''0xea60'', verificationGasLimit = 1750000,
      maxFeePerGas = Some 30000000000, maxPriorityFeePerGas = Some 1000000000,
      paymasterAndData = ''0x'', preVerificationGas = Promise (Inr 24440), signature = ''0x''\<rparr>"

text \<open>
  The details with the nonce 1 and the gas limit 70000 given by the caller, and the
  operation built from them for the undeployed account.
\<close>

definition exampleForced :: transaction_details where
  "exampleForced = exampleDetails\<lparr>d_gasLimit := Some 70000, d_nonce := Some 1\<rparr>"

definition exampleForcedOp :: "(string js_value) user_op" where
  "exampleForcedOp =
     \<lparr>sender = Promise (Inr ''0x2222222222222222222222222222222222222222''),
      nonce = 1, initCode = ''0x'',
      callData = ''0x0000189aBBBBBBBBBBBBBBBBBBBBBBBBBBBBBBBBBBBBBBBB00'',
      callGasLimit = ''0x011170'', verificationGasLimit = 1500000,
      maxFeePerGas = Some 30000000000, maxPriorityFeePerGas = Some 1000000000,
      paymasterAndData = ''0x'', preVerificationGas = Promise (Inr 21864), signature = ''0x''\<rparr>"

text \<open>An environment whose factory contract cannot be reached.\<close>

definition unreachableEnv :: env where
  "unreachableEnv =
     (exampleEnv ''0x'')\<lparr>getAddressForCounterFactualAccount :=
        (\<lambda>factory module setup index. Inl ''network failure'')\<rparr>"

section \<open>Running an action\<close>

lemma succeed_run: "succeed x s = (r, s') \<longleftrightarrow> r = Inr x \<and> s' = s"
  by (auto simp: succeed_def)

lemma throw_run: "throw e s = (r, s') \<longleftrightarrow> r = Inl e \<and> s' = s"
  by (auto simp: throw_def)

lemma field_run: "field f s = (r, s') \<longleftrightarrow> r = Inr (f s) \<and> s' = s"
  by (auto simp: field_def)

lemma external_Inr: "external r s = (Inr x, s') \<longleftrightarrow> r = Inr x \<and> s' = s"
  by (auto simp: external_def succeed_def throw_def split: sum.splits)

lemma external_Inl:
  "external r s = (Inl e, s') \<longleftrightarrow> (\<exists>m. r = Inl m \<and> e = Rejected m) \<and> s' = s"
  by (auto simp: external_def succeed_def throw_def split: sum.splits)

lemma external_state: "external r s = (x, s') \<Longrightarrow> s' = s"
  by (auto simp: external_def succeed_def throw_def split: sum.splits)

lemma await_Inr:
  "await m f s = (Inr y, s') \<longleftrightarrow> (\<exists>x s1. m s = (Inr x, s1) \<and> f x s1 = (Inr y, s'))"
  by (auto simp: await_def split: prod.splits sum.splits)

lemma await_Inl:
  "await m f s = (Inl e, s') \<longleftrightarrow>
     (m s = (Inl e, s') \<or> (\<exists>x s1. m s = (Inr x, s1) \<and> f x s1 = (Inl e, s')))"
  by (auto simp: await_def split: prod.splits sum.splits)

lemma await_run:
  "await m f s = (r, s') \<Longrightarrow>
     (\<exists>e. m s = (Inl e, s')) \<or> (\<exists>x s1. m s = (Inr x, s1) \<and> f x s1 = (r, s'))"
  by (auto simp: await_def split: prod.splits sum.splits)

lemma start_run: "start m s = (r, s') \<longleftrightarrow> (\<exists>q. m s = (q, s') \<and> r = Inr (Promise q))"
  by (auto simp: start_def split: prod.splits)

section \<open>The address cache\<close>

lemma getAccountAddress_cached:
  "accountAddress s = Some a \<Longrightarrow> a \<noteq> [] \<Longrightarrow> getAccountAddress env s = (Inr a, s)"
  by (simp add: getAccountAddress_def truthy_def)

lemma getAccountAddress_again:
  "getAccountAddress env s = (r, s') \<Longrightarrow> fst (getAccountAddress env s') = r"
  by (auto simp: getAccountAddress_def truthy_def moduleSetupData_def
           split: if_splits sum.splits option.splits)

lemma getAccountAddress_fields:
  "getAccountAddress env s = (r, s') \<Longrightarrow>
     owner_address s' = owner_address s \<and> factoryAddress s' = factoryAddress s \<and>
     entryPointAddress s' = entryPointAddress s \<and> ecdsaOwnership s' = ecdsaOwnership s \<and>
     smartAccountContract s' = smartAccountContract s"
  by (auto simp: getAccountAddress_def split: if_splits sum.splits)

lemma getAccountAddress_handle:
  "fst (getAccountAddress env (s\<lparr>smartAccountContract := c\<rparr>)) = fst (getAccountAddress env s)"
  by (auto simp: getAccountAddress_def truthy_def moduleSetupData_def
           split: if_splits sum.splits option.splits)

lemma consistent_new: "consistent env (BiconomySmartAccountV2 owner fa ep ecdsaModule)"
  by (simp add: consistent_def BiconomySmartAccountV2_def)

section \<open>Relations every method preserves\<close>

lemma preserves_succeed: "reflp R \<Longrightarrow> preserves R (succeed x)"
  by (auto simp: preserves_def succeed_def reflp_def)

lemma preserves_throw: "reflp R \<Longrightarrow> preserves R (throw e)"
  by (auto simp: preserves_def throw_def reflp_def)

lemma preserves_field: "reflp R \<Longrightarrow> preserves R (field f)"
  by (auto simp: preserves_def field_def reflp_def)

lemma preserves_external: "reflp R \<Longrightarrow> preserves R (external r)"
  by (auto simp: preserves_def reflp_def dest: external_state)

lemma preserves_await:
  assumes "transp R" and "preserves R m" and "\<And>x. preserves R (f x)"
  shows "preserves R (await m f)"
  unfolding preserves_def
proof (intro allI impI)
  fix s r s'
  assume run: "await m f s = (r, s')"
  from await_run [OF run] show "R s s'"
  proof
    assume "\<exists>e. m s = (Inl e, s')"
    with assms(2) show ?thesis by (auto simp: preserves_def)
  next
    assume "\<exists>x s1. m s = (Inr x, s1) \<and> f x s1 = (r, s')"
    then obtain x s1 where "m s = (Inr x, s1)" and "f x s1 = (r, s')" by blast
    with assms(2) assms(3) [of x] have "R s s1" and "R s1 s'"
      by (auto simp: preserves_def)
    with assms(1) show ?thesis by (blast dest: transpD)
  qed
qed

lemma preserves_start: "preserves R m \<Longrightarrow> preserves R (start m)"
  by (auto simp: preserves_def start_def split: prod.splits)

lemma preserves_encodeExecute:
  assumes "reflp R" and "transp R" and "preserves R (getAccountContract env)"
  shows "preserves R (encodeExecute env to val dat)"
  unfolding encodeExecute_def
  by (intro preserves_await preserves_external assms)

lemma preserves_encodeUserOpCallDataAndGasLimit:
  assumes "reflp R" and "transp R" and "preserves R (getAccountAddress env)"
    and "preserves R (getAccountContract env)"
  shows "preserves R (encodeUserOpCallDataAndGasLimit env d)"
  unfolding encodeUserOpCallDataAndGasLimit_def
  by (auto split: option.splits
           intro!: preserves_await preserves_external preserves_throw preserves_succeed
                   preserves_field preserves_encodeExecute assms)

lemma preserves_estimateCreationGas:
  assumes "reflp R"
  shows "preserves R (estimateCreationGas env ic)"
  unfolding estimateCreationGas_def
  by (auto intro!: preserves_external preserves_succeed assms)

lemma preserves_createInitCode:
  assumes "reflp R" and "transp R"
  shows "preserves R (createInitCode env index)"
  unfolding createInitCode_def
  by (intro preserves_await preserves_external preserves_succeed preserves_field assms)

lemma preserves_getPreVerificationGas:
  assumes "reflp R" and "transp R"
  shows "preserves R (getPreVerificationGas env userOp)"
  unfolding getPreVerificationGas_def resolveProperties_def
  by (auto split: js_value.splits sum.splits
           intro!: preserves_await preserves_external preserves_succeed preserves_throw assms)

lemma preserves_isAccountDeploied:
  assumes "reflp R" and "transp R" and "preserves R (getAccountAddress env)"
  shows "preserves R (isAccountDeploied env)"
  unfolding isAccountDeploied_def
  by (intro preserves_await preserves_external preserves_succeed assms)

lemma preserves_getNonce:
  assumes "reflp R" and "transp R" and "preserves R (getAccountAddress env)"
    and "preserves R (getAccountContract env)"
  shows "preserves R (getNonce env)"
  unfolding getNonce_def contractNonce_def
  by (auto intro!: preserves_await preserves_external preserves_succeed preserves_throw
                   preserves_isAccountDeploied assms)

lemma preserves_createUnsignedUserOp:
  assumes "reflp R" and "transp R" and "preserves R (getAccountAddress env)"
    and "preserves R (getAccountContract env)"
  shows "preserves R (createUnsignedUserOp env infos n0)"
  unfolding createUnsignedUserOp_def Let_def getVerificationGasLimit_def
  by (auto split: option.splits list.splits
           intro!: preserves_await preserves_external preserves_throw preserves_succeed
                   preserves_start preserves_encodeUserOpCallDataAndGasLimit preserves_getNonce
                   preserves_createInitCode preserves_estimateCreationGas
                   preserves_getPreVerificationGas assms)

lemma preserves_signUserOpHash: "reflp R \<Longrightarrow> preserves R (signUserOpHash env h)"
  unfolding signUserOpHash_def by (rule preserves_external)

lemma preserves_getUserOpHash:
  assumes "reflp R" and "transp R"
  shows "preserves R (getUserOpHash env userOp)"
  unfolding getUserOpHash_def
  by (intro preserves_await preserves_external preserves_field assms)

lemma preserves_perform:
  assumes "reflp R" and "transp R" and "\<And>env. preserves R (getAccountAddress env)"
    and "\<And>env. preserves R (getAccountContract env)"
  shows "R s (perform c s)"
proof -
  obtain env operation where c: "c = (env, operation)" by (cases c)
  have run: "\<And>m :: 'a action. preserves R m \<Longrightarrow> R s (snd (m s))" for dummy :: 'a
    by (auto simp: preserves_def intro: prod.collapse [symmetric])
  show ?thesis
    unfolding c
    by (cases operation)
       (auto simp: getVerificationGasLimit_def
             intro!: run assms preserves_createUnsignedUserOp
                     preserves_encodeUserOpCallDataAndGasLimit preserves_estimateCreationGas
                     preserves_encodeExecute preserves_createInitCode preserves_succeed
                     preserves_getPreVerificationGas preserves_getNonce
                     preserves_isAccountDeploied preserves_signUserOpHash
                     preserves_getUserOpHash)
qed

lemma preserves_performAll:
  assumes "reflp R" and "transp R" and "\<And>env. preserves R (getAccountAddress env)"
    and "\<And>env. preserves R (getAccountContract env)"
  shows "R s (performAll cs s)"
proof (induction cs arbitrary: s)
  case Nil
  from assms(1) show ?case by (simp add: reflpD)
next
  case (Cons c cs)
  have "R s (perform c s)" by (rule preserves_perform [OF assms])
  moreover have "R (perform c s) (performAll cs (perform c s))" by (rule Cons.IH)
  ultimately show ?case using assms(2) by (auto dest: transpD)
qed


lemma reflp_sameInstance: "reflp (sameInstance env)"
  by (simp add: reflp_def sameInstance_def)

lemma transp_sameInstance: "transp (sameInstance env)"
proof (rule transpI)
  fix x y z
  assume "sameInstance env x y" and "sameInstance env y z"
  then show "sameInstance env x z"
    unfolding sameInstance_def by (elim conjE) simp
qed

lemma consistent_cong:
  "smartAccountContract s' = smartAccountContract s \<Longrightarrow>
   fst (getAccountAddress env s') = fst (getAccountAddress env s) \<Longrightarrow>
   consistent env s' = consistent env s"
  by (simp add: consistent_def split: option.splits)

lemma sameInstance_getAccountAddress: "preserves (sameInstance env) (getAccountAddress env)"
  unfolding preserves_def
proof (intro allI impI)
  fix s r s'
  assume run: "getAccountAddress env s = (r, s')"
  have same: "fst (getAccountAddress env s') = fst (getAccountAddress env s)"
    using getAccountAddress_again [OF run] run by simp
  note fields = getAccountAddress_fields [OF run]
  have "consistent env s' = consistent env s"
    using fields same by (intro consistent_cong) simp_all
  with fields same show "sameInstance env s s'"
    unfolding sameInstance_def by simp
qed

lemma getAccountContract_run:
  "getAccountContract env s = (r, s') \<Longrightarrow>
     (\<exists>c. smartAccountContract s = Some c \<and> r = Inr c \<and> s' = s) \<or>
     (smartAccountContract s = None \<and>
        ((\<exists>e. r = Inl e \<and> getAccountAddress env s = (Inl e, s')) \<or>
         (\<exists>a s1. r = Inr a \<and> getAccountAddress env s = (Inr a, s1) \<and>
                  s' = s1\<lparr>smartAccountContract := Some a\<rparr>)))"
  by (auto simp: getAccountContract_def await_def split: option.splits prod.splits sum.splits)

lemma sameInstance_getAccountContract: "preserves (sameInstance env) (getAccountContract env)"
  unfolding preserves_def
proof (intro allI impI)
  fix s r s'
  assume run: "getAccountContract env s = (r, s')"
  note addr = sameInstance_getAccountAddress [unfolded preserves_def, rule_format]
  from getAccountContract_run [OF run] show "sameInstance env s s'"
  proof (elim disjE exE conjE)
    fix c assume "s' = s"
    then show ?thesis using reflp_sameInstance [of env] by (simp add: reflp_def)
  next
    fix e assume "getAccountAddress env s = (Inl e, s')"
    then show ?thesis by (rule addr)
  next
    fix a s1
    assume a: "getAccountAddress env s = (Inr a, s1)"
      and s': "s' = s1\<lparr>smartAccountContract := Some a\<rparr>"
    have s1: "sameInstance env s s1" using a by (rule addr)
    have a1: "fst (getAccountAddress env s1) = Inr a"
      using getAccountAddress_again [OF a] .
    have "fst (getAccountAddress env s') = Inr a"
      unfolding s' getAccountAddress_handle by (rule a1)
    then have "consistent env s'" and "fst (getAccountAddress env s') = fst (getAccountAddress env s1)"
      using a1 by (simp_all add: consistent_def s')
    with s1 show ?thesis
      unfolding sameInstance_def s' by simp
  qed
qed

lemma reflp_stillCached: "reflp (stillCached a)"
  by (simp add: reflp_def stillCached_def)

lemma transp_stillCached: "transp (stillCached a)"
  by (auto simp: transp_def stillCached_def)

lemma stillCached_getAccountAddress:
  "a \<noteq> [] \<Longrightarrow> preserves (stillCached a) (getAccountAddress env)"
  by (auto simp: preserves_def stillCached_def getAccountAddress_cached)

lemma stillCached_getAccountContract:
  assumes "a \<noteq> []"
  shows "preserves (stillCached a) (getAccountContract env)"
  unfolding preserves_def stillCached_def
proof (intro allI impI)
  fix s r s'
  assume run: "getAccountContract env s = (r, s')" and cached: "accountAddress s = Some a"
  have addr: "getAccountAddress env s = (Inr a, s)"
    using cached assms by (rule getAccountAddress_cached)
  from getAccountContract_run [OF run] show "accountAddress s' = Some a"
    using cached addr by auto
qed

lemma getAccountAddress_caches:
  "getAccountAddress env s = (Inr a, s') \<Longrightarrow> accountAddress s' = Some a"
  by (auto simp: getAccountAddress_def truthy_def split: if_splits sum.splits option.splits)

section \<open>What each method returns\<close>

lemma getAccountContract_result:
  assumes "getAccountContract env s = (Inr c, s')" and "consistent env s"
  shows "fst (getAccountAddress env s) = Inr c"
  using getAccountContract_run [OF assms(1)] assms(2)
  by (auto simp: consistent_def)

lemma encodeExecute_result:
  assumes "encodeExecute env to val dat s = (Inr cd, s')" and "consistent env s"
  shows "\<exists>a. fst (getAccountAddress env s) = Inr a \<and> populateExecute env a to val dat = Inr cd"
  using assms
  by (auto simp: encodeExecute_def await_Inr external_Inr dest: getAccountContract_result)

lemma encodeUserOpCallDataAndGasLimit_result:
  assumes run: "encodeUserOpCallDataAndGasLimit env info s = (Inr (cd, cgl), s')"
    and ok: "consistent env s"
  shows "\<exists>d a. info = Some d \<and> fst (getAccountAddress env s) = Inr a \<and>
           populateExecute env a (d_to d) (toHexString env (orZero (d_value d))) (d_data d) = Inr cd \<and>
           (if orZero (d_gasLimit d) = 0
            then \<exists>g. estimateGas env \<lparr>req_from = Some (entryPointAddress s), req_to = a,
                                     req_data = cd\<rparr> = Inr g \<and> cgl = toHexString env g
            else cgl = toHexString env (orZero (d_gasLimit d)))"
proof -
  from run obtain d where info: "info = Some d"
    by (cases info) (auto simp: encodeUserOpCallDataAndGasLimit_def throw_run)
  let ?val = "toHexString env (orZero (d_value d))"
  from run info obtain cd' s1 where
    enc: "encodeExecute env (d_to d) ?val (d_data d) s = (Inr cd', s1)" and
    rest: "(if orZero (d_gasLimit d) = 0
            then await (field entryPointAddress) (\<lambda>ep.
                 await (getAccountAddress env) (\<lambda>a.
                 await (external (estimateGas env
                          \<lparr>req_from = Some ep, req_to = a, req_data = cd'\<rparr>)) (\<lambda>g.
                 succeed (cd', toHexString env g))))
            else succeed (cd', toHexString env (orZero (d_gasLimit d)))) s1 = (Inr (cd, cgl), s')"
    by (auto simp: encodeUserOpCallDataAndGasLimit_def await_Inr)
  from encodeExecute_result [OF enc ok] obtain a where
    a: "fst (getAccountAddress env s) = Inr a" and
    pop: "populateExecute env a (d_to d) ?val (d_data d) = Inr cd'" by blast
  have same: "sameInstance env s s1"
    using preserves_encodeExecute [OF reflp_sameInstance transp_sameInstance
            sameInstance_getAccountContract] enc
    by (auto simp: preserves_def)
  then have a1: "fst (getAccountAddress env s1) = Inr a" and ep: "entryPointAddress s1 = entryPointAddress s"
    using a by (simp_all add: sameInstance_def)
  show ?thesis
  proof (cases "orZero (d_gasLimit d) = 0")
    case True
    with rest a1 ep have "cd' = cd \<and> (\<exists>g. estimateGas env \<lparr>req_from = Some (entryPointAddress s),
            req_to = a, req_data = cd\<rparr> = Inr g \<and> cgl = toHexString env g)"
      by (auto simp: await_Inr field_run external_Inr succeed_run)
    with info a pop True show ?thesis by auto
  next
    case False
    with rest have "cd' = cd \<and> cgl = toHexString env (orZero (d_gasLimit d))"
      by (auto simp: succeed_run)
    with info a pop False show ?thesis by auto
  qed
qed

text \<open>
  \<open>contractNonce\<close> with no argument rejects, so \<open>getNonce\<close> answers only when the
  account has no code, and answers zero.
\<close>

lemma contractNonce_no_argument:
  "contractNonce env c [] s = (Inl (Rejected ''no matching fragment''), s)"
  by (simp add: contractNonce_def nonceInputs_def throw_def)

lemma getNonce_result:
  assumes run: "getNonce env s = (Inr n, s')"
  shows "n = 0 \<and> (\<exists>a code. fst (getAccountAddress env s) = Inr a \<and> getCode env a = Inr code \<and>
           \<not> length code > 2)"
proof -
  from run obtain a s1 code where
    a: "getAccountAddress env s = (Inr a, s1)" and code: "getCode env a = Inr code" and
    rest: "(if \<not> length code > 2 then succeed 0
            else await (getAccountContract env) (\<lambda>accountContract.
                 contractNonce env accountContract [])) s1 = (Inr n, s')"
    by (auto simp: getNonce_def isAccountDeploied_def await_Inr external_Inr succeed_run)
  have short: "\<not> length code > 2"
  proof
    assume "length code > 2"
    with rest show False
      by (auto simp: await_Inr contractNonce_no_argument)
  qed
  with rest have "n = 0" by (simp add: succeed_run)
  with a code short show ?thesis by auto
qed

lemma getNonce_deployed:
  assumes a: "fst (getAccountAddress env s) = Inr a" and code: "getCode env a = Inr code"
    and long: "length code > 2"
  shows "fst (getNonce env s) = Inl (Rejected ''no matching fragment'')"
proof -
  obtain s1 where run: "getAccountAddress env s = (Inr a, s1)"
    using a by (cases "getAccountAddress env s") simp
  have a1: "fst (getAccountAddress env s1) = Inr a"
    using getAccountAddress_again [OF run] .
  obtain r s2 where c: "getAccountContract env s1 = (r, s2)"
    by (cases "getAccountContract env s1")
  from getAccountContract_run [OF c] a1 obtain c' where "r = Inr c'"
    by auto
  with c run code long show ?thesis
    by (simp add: getNonce_def isAccountDeploied_def await_def external_def succeed_def
                  contractNonce_no_argument)
qed

lemma createInitCode_run:
  "createInitCode env index s =
     (case encodeFunctionData env ''deployCounterFactualAccount''
             [AbiAddress (ecdsaOwnership s), AbiBytes (moduleSetupData s), AbiUint 0] of
        Inl m \<Rightarrow> (Inl (Rejected m), s)
      | Inr enc \<Rightarrow> (Inr (concatHex [''0x000000a56Aaca3e9a4C479ea6b6CD0DbcB6634F5'', enc]), s))"
  by (simp add: createInitCode_def await_def field_def external_def succeed_def throw_def
           split: sum.splits)

lemma concatHex_factory:
  "concatHex [''0x000000a56Aaca3e9a4C479ea6b6CD0DbcB6634F5'', enc] =
     ''0x000000a56Aaca3e9a4C479ea6b6CD0DbcB6634F5'' @ replace0x enc"
  by (simp add: concatHex_def)

lemma estimateCreationGas_run:
  "estimateCreationGas env (Some ic) s =
     (if ic = [] \<or> ic = ''0x'' then (Inr 0, s)
      else (case estimateGas env \<lparr>req_from = None, req_to = take 42 ic,
                                   req_data = ''0x'' @ drop 42 ic\<rparr> of
              Inl m \<Rightarrow> (Inl (Rejected m), s)
            | Inr g \<Rightarrow> (Inr g, s)))"
  by (simp add: estimateCreationGas_def truthy_def external_def succeed_def throw_def
           split: sum.splits)

lemma state_unchanged:
  "createInitCode env index s = (r, s') \<Longrightarrow> s' = s"
  "estimateCreationGas env ic s = (q, s') \<Longrightarrow> s' = s"
  by (auto simp: createInitCode_run estimateCreationGas_def succeed_run
           dest: external_state split: sum.splits if_splits)

lemma getPreVerificationGas_Inr:
  "getPreVerificationGas env userOp s = (Inr g, s') \<longleftrightarrow>
     (\<exists>a. (sender userOp = Plain a \<or> sender userOp = Promise (Inr a)) \<and>
          calcPreVerificationGas env (withSender a userOp) = Inr g) \<and> s' = s"
  by (auto simp: getPreVerificationGas_def resolveProperties_def await_Inr external_Inr
                 succeed_run throw_run
           split: js_value.splits sum.splits)

lemma createUnsignedUserOp_steps:
  assumes run: "createUnsignedUserOp env infos n0 s = (Inr userOp, s')"
  shows "\<exists>d cd cgl s1 n s2 ic initGas chainId feeData a g.
     infos = [d] \<and>
     encodeUserOpCallDataAndGasLimit env (Some d) s = (Inr (cd, cgl), s1) \<and>
     (case d_nonce d of Some k \<Rightarrow> succeed k | None \<Rightarrow> getNonce env) s1 = (Inr n, s2) \<and>
     (if n = 0 then createInitCode env 0 else succeed ''0x'') s2 = (Inr ic, s2) \<and>
     estimateCreationGas env (Some ic) s2 = (Inr initGas, s2) \<and>
     getNetwork env = Inr chainId \<and> getFeeDataFromParticle env chainId = Inr feeData \<and>
     getAccountAddress env s2 = (Inr a, s') \<and>
     calcPreVerificationGas env (withSender a userOp) = Inr g \<and>
     userOp = \<lparr>sender = Promise (Inr a), nonce = n, initCode = ic, callData = cd,
               callGasLimit = cgl, verificationGasLimit = 1500000 + initGas,
               maxFeePerGas = fee_maxFeePerGas feeData,
               maxPriorityFeePerGas = fee_maxPriorityFeePerGas feeData,
               paymasterAndData = ''0x'', preVerificationGas = Promise (Inr g),
               signature = ''0x''\<rparr>"
proof -
  have len: "\<not> length infos > 1"
    using run by (auto simp: createUnsignedUserOp_def throw_run)
  have "infos \<noteq> []"
    using run
    by (auto simp: createUnsignedUserOp_def encodeUserOpCallDataAndGasLimit_def await_Inr throw_run)
  with len obtain d where infos: "infos = [d]"
    by (cases infos) auto
  from run obtain cd cgl s1 n s2 ic s3 initGas s4 chainId feeData sp s5 logged pvg where
    enc: "encodeUserOpCallDataAndGasLimit env (Some d) s = (Inr (cd, cgl), s1)" and
    non: "(case d_nonce d of Some k \<Rightarrow> succeed k | None \<Rightarrow> getNonce env) s1 = (Inr n, s2)" and
    ini: "(if n = 0 then createInitCode env 0 else succeed ''0x'') s2 = (Inr ic, s3)" and
    est: "estimateCreationGas env (Some ic) s3 = (Inr initGas, s4)" and
    net: "getNetwork env = Inr chainId" and
    fee: "getFeeDataFromParticle env chainId = Inr feeData" and
    sp: "start (getAccountAddress env) s4 = (Inr sp, s5)" and
    log: "getPreVerificationGas env
            \<lparr>sender = sp, nonce = n, initCode = ic, callData = cd, callGasLimit = cgl,
             verificationGasLimit = 1500000 + initGas,
             maxFeePerGas = fee_maxFeePerGas feeData,
             maxPriorityFeePerGas = fee_maxPriorityFeePerGas feeData,
             paymasterAndData = ''0x''\<rparr> s5 = (Inr logged, s5)" and
    pvg: "start (getPreVerificationGas env
            \<lparr>sender = sp, nonce = n, initCode = ic, callData = cd, callGasLimit = cgl,
             verificationGasLimit = 1500000 + initGas,
             maxFeePerGas = fee_maxFeePerGas feeData,
             maxPriorityFeePerGas = fee_maxPriorityFeePerGas feeData,
             paymasterAndData = ''0x''\<rparr>) s5 = (Inr pvg, s')" and
    op: "userOp = partial_user_op.extend
            \<lparr>sender = sp, nonce = n, initCode = ic, callData = cd, callGasLimit = cgl,
             verificationGasLimit = 1500000 + initGas,
             maxFeePerGas = fee_maxFeePerGas feeData,
             maxPriorityFeePerGas = fee_maxPriorityFeePerGas feeData,
             paymasterAndData = ''0x''\<rparr> \<lparr>preVerificationGas = pvg, signature = ''0x''\<rparr>"
    unfolding infos createUnsignedUserOp_def Let_def getVerificationGasLimit_def
    by (simp add: await_Inr succeed_run external_Inr getPreVerificationGas_Inr split_paired_Ex)
       blast
  have s3: "s3 = s2"
    using ini by (auto simp: succeed_run dest: state_unchanged(1) split: if_splits)
  have s4: "s4 = s3" using est by (rule state_unchanged(2))
  from sp obtain q where q: "getAccountAddress env s2 = (q, s5)" and spq: "sp = Promise q"
    by (auto simp: start_run s3 s4)
  from log spq obtain a where a: "q = Inr a" and
    calc: "calcPreVerificationGas env (withSender a \<lparr>sender = sp, nonce = n, initCode = ic,
             callData = cd, callGasLimit = cgl,
             verificationGasLimit = 1500000 + initGas,
             maxFeePerGas = fee_maxFeePerGas feeData,
             maxPriorityFeePerGas = fee_maxPriorityFeePerGas feeData,
             paymasterAndData = ''0x''\<rparr>) = Inr logged"
    by (auto simp: getPreVerificationGas_Inr)
  from pvg log have s': "s' = s5" and pvg': "pvg = Promise (Inr logged)"
    by (auto simp: start_run)
  show ?thesis
    using infos enc non ini est net fee q calc
    unfolding s3 s4 s' a op pvg' spq
    by (simp add: partial_user_op.defs withSender_def)
qed

lemma sameInstance_createUnsignedUserOp:
  "createUnsignedUserOp env infos n0 s = (r, s') \<Longrightarrow> sameInstance env s s'"
  using preserves_createUnsignedUserOp [OF reflp_sameInstance transp_sameInstance
          sameInstance_getAccountAddress sameInstance_getAccountContract, of env infos n0]
  by (simp add: preserves_def)

lemma consistent_createUnsignedUserOp:
  "createUnsignedUserOp env infos n0 s = (r, s') \<Longrightarrow> consistent env s \<Longrightarrow> consistent env s'"
  by (drule sameInstance_createUnsignedUserOp) (simp add: sameInstance_def)

section \<open>The example, evaluated\<close>

declare hexDigits.simps [simp del]

lemma hexDigits_values:
  "hexDigits 0 = ''0''" "hexDigits 1 = ''1''" "hexDigits (Suc 0) = ''1''"
  "hexDigits 60000 = ''ea60''" "hexDigits 70000 = ''11170''"
  by (simp_all add: hexDigits.simps)

lemma exampleHex_values:
  "exampleHex 0 = ''0x00''" "exampleHex 60000 = ''0xea60''" "exampleHex 70000 = ''0x011170''"
  by (simp_all add: exampleHex_def hexDigits_values)

lemmas example_defs =
  exampleEnv_def exampleAccount_def exampleDetails_def exampleForced_def exampleResolved_def
  BiconomySmartAccountV2_def

lemmas method_defs =
  createUnsignedUserOp_def encodeUserOpCallDataAndGasLimit_def encodeExecute_def
  getAccountContract_def getAccountAddress_def getNonce_def isAccountDeploied_def
  contractNonce_def nonceInputs_def
  createInitCode_def estimateCreationGas_def getVerificationGasLimit_def
  getPreVerificationGas_def resolveProperties_def withSender_def moduleSetupData_def
  concatHex_def truthy_def orZero_def
  await_def succeed_def throw_def external_def field_def start_def

lemma example_first:
  "createUnsignedUserOp (exampleEnv ''0x'') [exampleDetails] None exampleAccount =
     (Inr exampleFirstOp, exampleResolved)"
  by (simp add: example_defs method_defs exampleFirstOp_def exampleHex_values hexDigits_values
                partial_user_op.defs)

lemma example_deployed:
  "createUnsignedUserOp (exampleEnv ''0x6080'') [exampleDetails] None exampleAccount =
     (Inl (Rejected ''no matching fragment''), exampleResolved)"
  by (simp add: example_defs method_defs exampleHex_values hexDigits_values)

lemma example_forced:
  "createUnsignedUserOp (exampleEnv ''0x'') [exampleForced] None exampleAccount =
     (Inr exampleForcedOp, exampleResolved)"
  by (simp add: example_defs method_defs exampleForcedOp_def exampleHex_values hexDigits_values
                partial_user_op.defs)

section \<open>The claims\<close>

text \<open>
  C8. An input list with more than one element makes \<open>createUnsignedUserOp\<close> fail with
  the batch error. Nothing of the pipeline has run: the result is the same in every
  environment, the instance is unchanged, and there is no operation.
\<close>

theorem batch_rejected:
  assumes "1 < length infos"
  shows "createUnsignedUserOp env infos n0 s = (Inl BatchNotSupported, s)"
  using assms by (simp add: createUnsignedUserOp_def throw_def)

theorem batch_rejected_witness:
  "1 < length [exampleDetails, exampleForced] \<and>
   createUnsignedUserOp unreachableEnv [exampleDetails, exampleForced] (Some 7) exampleAccount =
     (Inl BatchNotSupported, exampleAccount)"
  using batch_rejected [of "[exampleDetails, exampleForced]" unreachableEnv "Some 7" exampleAccount]
  by simp

text \<open>
  C1. In every operation \<open>createUnsignedUserOp\<close> builds, the init-code is not the empty
  byte string \<open>0x\<close> exactly when the nonce is zero: for the nonce zero it has more than
  the two characters of \<open>0x\<close>, and for every other nonce, given by the caller or read
  on-chain, it is \<open>0x\<close>, whatever code the account has.
\<close>

theorem initCode_iff_nonce_zero:
  assumes "createUnsignedUserOp env infos n0 s = (Inr userOp, s')"
  shows "(initCode userOp \<noteq> ''0x'') = (nonce userOp = 0) \<and>
         (if nonce userOp = 0 then 2 < length (initCode userOp) else initCode userOp = ''0x'')"
proof -
  from createUnsignedUserOp_steps [OF assms] obtain n s2 ic where
    ini: "(if n = 0 then createInitCode env 0 else succeed ''0x'') s2 = (Inr ic, s2)" and
    n: "nonce userOp = n" and ic: "initCode userOp = ic"
    by auto
  show ?thesis
  proof (cases "n = 0")
    case True
    with ini obtain enc where "ic = ''0x000000a56Aaca3e9a4C479ea6b6CD0DbcB6634F5'' @ replace0x enc"
      by (auto simp: createInitCode_run concatHex_factory split: sum.splits)
    with True n ic show ?thesis by simp
  next
    case False
    with ini have "ic = ''0x''" by (simp add: succeed_run)
    with False n ic show ?thesis by simp
  qed
qed

theorem initCode_iff_nonce_zero_witness:
  "createUnsignedUserOp (exampleEnv ''0x'') [exampleForced] None exampleAccount =
     (Inr exampleForcedOp, exampleResolved) \<and>
   getCode (exampleEnv ''0x'') ''0x2222222222222222222222222222222222222222'' = Inr ''0x'' \<and>
   nonce exampleForcedOp = 1 \<and> initCode exampleForcedOp = ''0x''"
proof -
  note built = initCode_iff_nonce_zero [OF example_forced]
  have "getCode (exampleEnv ''0x'') ''0x2222222222222222222222222222222222222222'' = Inr ''0x''"
    by (simp add: exampleEnv_def)
  moreover have "nonce exampleForcedOp = 1"
    by (simp add: exampleForcedOp_def)
  ultimately show ?thesis
    using built example_forced by simp
qed

text \<open>
  C4. The verification gas limit of every operation built is the baseline 1500000 plus
  the creation gas. The creation gas is zero when the init-code is \<open>0x\<close>, so that the
  limit is the baseline; otherwise it is what the estimator answers for a call to the
  first 42 characters of the init-code (\<open>0x\<close> and the 20 bytes of the deployer address)
  with the rest of the init-code as data. \<open>estimateCreationGas\<close> answers zero for an
  absent init-code and for \<open>0x\<close> without a call of the estimator.
\<close>

theorem verificationGasLimit_baseline_plus_creation:
  assumes "createUnsignedUserOp env infos n0 s = (Inr userOp, s')"
  shows "(if initCode userOp = ''0x'' then verificationGasLimit userOp = 1500000
          else \<exists>g. estimateGas env \<lparr>req_from = None, req_to = take 42 (initCode userOp),
                       req_data = ''0x'' @ drop 42 (initCode userOp)\<rparr> = Inr g \<and>
                    verificationGasLimit userOp = 1500000 + g) \<and>
         getVerificationGasLimit s = (Inr 1500000, s) \<and>
         estimateCreationGas env None s = (Inr 0, s) \<and>
         estimateCreationGas env (Some ''0x'') s = (Inr 0, s)"
proof -
  from createUnsignedUserOp_steps [OF assms] obtain n :: int and s2 ic initGas where
    ini: "(if n = 0 then createInitCode env 0 else succeed ''0x'') s2 = (Inr ic, s2)" and
    est: "estimateCreationGas env (Some ic) s2 = (Inr initGas, s2)" and
    ic: "initCode userOp = ic" and v: "verificationGasLimit userOp = 1500000 + initGas"
    by auto
  have "ic \<noteq> []"
    using ini
    by (auto simp: createInitCode_run concatHex_factory succeed_run split: sum.splits if_splits)
  with est have "if ic = ''0x'' then initGas = 0
    else estimateGas env \<lparr>req_from = None, req_to = take 42 ic, req_data = ''0x'' @ drop 42 ic\<rparr>
           = Inr initGas"
    by (auto simp: estimateCreationGas_run split: sum.splits if_splits)
  with ic v have "if initCode userOp = ''0x'' then verificationGasLimit userOp = 1500000
          else \<exists>g. estimateGas env \<lparr>req_from = None, req_to = take 42 (initCode userOp),
                       req_data = ''0x'' @ drop 42 (initCode userOp)\<rparr> = Inr g \<and>
                    verificationGasLimit userOp = 1500000 + g"
    by (auto split: if_splits)
  moreover have "getVerificationGasLimit s = (Inr 1500000, s)"
    by (simp add: getVerificationGasLimit_def succeed_def)
  moreover have "estimateCreationGas env None s = (Inr 0, s)"
    and "estimateCreationGas env (Some ''0x'') s = (Inr 0, s)"
    by (simp_all add: estimateCreationGas_def truthy_def succeed_def)
  ultimately show ?thesis by blast
qed

theorem verificationGasLimit_baseline_plus_creation_witness:
  "createUnsignedUserOp (exampleEnv ''0x'') [exampleDetails] None exampleAccount =
     (Inr exampleFirstOp, exampleResolved) \<and>
   initCode exampleFirstOp \<noteq> ''0x'' \<and>
   estimateGas (exampleEnv ''0x'')
     \<lparr>req_from = None, req_to = take 42 (initCode exampleFirstOp),
      req_data = ''0x'' @ drop 42 (initCode exampleFirstOp)\<rparr> = Inr 250000 \<and>
   verificationGasLimit exampleFirstOp = 1500000 + 250000"
proof -
  note built = verificationGasLimit_baseline_plus_creation [OF example_first]
  have ic: "initCode exampleFirstOp \<noteq> ''0x''"
    by (simp add: exampleFirstOp_def)
  have "estimateGas (exampleEnv ''0x'')
          \<lparr>req_from = None, req_to = take 42 (initCode exampleFirstOp),
           req_data = ''0x'' @ drop 42 (initCode exampleFirstOp)\<rparr> = Inr 250000"
    by (simp add: exampleEnv_def)
  with built ic example_first show ?thesis by auto
qed

text \<open>
  C5. For the details \<open>d\<close> of a build (the one element of the input list), on an
  instance whose contract handle, if any, is bound to its address: when the gas limit
  the caller gave is not zero, the call gas limit of the operation is that value, as the
  hexadecimal string \<open>toHexString\<close> writes; when it is zero or absent, the call gas limit
  is, written the same way, what the estimator answers for the request from the
  EntryPoint address to the account address with the encoded \<open>execute\<close> call as data.
  The call data of the operation is that encoded call.
\<close>

theorem callGasLimit_supplied_or_estimated:
  assumes "createUnsignedUserOp env infos n0 s = (Inr userOp, s')" and "consistent env s"
  shows "\<exists>d a. infos = [d] \<and> fst (getAccountAddress env s) = Inr a \<and>
           populateExecute env a (d_to d) (toHexString env (orZero (d_value d))) (d_data d) =
             Inr (callData userOp) \<and>
           (if orZero (d_gasLimit d) = 0
            then \<exists>g. estimateGas env \<lparr>req_from = Some (entryPointAddress s), req_to = a,
                                     req_data = callData userOp\<rparr> = Inr g \<and>
                     callGasLimit userOp = toHexString env g
            else callGasLimit userOp = toHexString env (orZero (d_gasLimit d)))"
proof -
  from createUnsignedUserOp_steps [OF assms(1)] obtain d cd cgl s1 where
    infos: "infos = [d]" and
    enc: "encodeUserOpCallDataAndGasLimit env (Some d) s = (Inr (cd, cgl), s1)" and
    cd: "callData userOp = cd" and cgl: "callGasLimit userOp = cgl"
    by auto
  from encodeUserOpCallDataAndGasLimit_result [OF enc assms(2)] infos cd cgl
  show ?thesis by auto
qed

theorem callGasLimit_supplied_or_estimated_witness:
  "createUnsignedUserOp (exampleEnv ''0x'') [exampleForced] None exampleAccount =
     (Inr exampleForcedOp, exampleResolved) \<and>
   consistent (exampleEnv ''0x'') exampleAccount \<and>
   d_gasLimit exampleForced = Some 70000 \<and>
   callGasLimit exampleForcedOp = toHexString (exampleEnv ''0x'') 70000"
proof -
  have ok: "consistent (exampleEnv ''0x'') exampleAccount"
    unfolding exampleAccount_def by (rule consistent_new)
  note built = callGasLimit_supplied_or_estimated [OF example_forced ok]
  have "d_gasLimit exampleForced = Some 70000"
    by (simp add: exampleForced_def)
  with built ok example_forced show ?thesis
    by (auto simp: orZero_def)
qed

text \<open>
  What holds of the nonce of an operation built: it is the nonce the caller gave in the
  details if there is one; otherwise it is zero, and the code the provider answers for
  the account address is not longer than \<open>0x\<close>.
\<close>

lemma nonce_supplied_or_zero:
  assumes "createUnsignedUserOp env infos n0 s = (Inr userOp, s')"
  shows "\<exists>d. infos = [d] \<and>
           (case d_nonce d of
              Some k \<Rightarrow> nonce userOp = k
            | None \<Rightarrow>
                nonce userOp = 0 \<and>
                (\<exists>a code. fst (getAccountAddress env s) = Inr a \<and> getCode env a = Inr code \<and>
                   \<not> length code > 2))"
proof -
  from createUnsignedUserOp_steps [OF assms] obtain d cd cgl s1 n s2 where
    infos: "infos = [d]" and
    enc: "encodeUserOpCallDataAndGasLimit env (Some d) s = (Inr (cd, cgl), s1)" and
    non: "(case d_nonce d of Some k \<Rightarrow> succeed k | None \<Rightarrow> getNonce env) s1 = (Inr n, s2)" and
    n: "nonce userOp = n"
    by auto
  have "sameInstance env s s1"
    using preserves_encodeUserOpCallDataAndGasLimit [OF reflp_sameInstance transp_sameInstance
            sameInstance_getAccountAddress sameInstance_getAccountContract] enc
    by (auto simp: preserves_def)
  then have same: "fst (getAccountAddress env s1) = fst (getAccountAddress env s)"
    by (simp add: sameInstance_def)
  show ?thesis
  proof (cases "d_nonce d")
    case (Some k)
    with non n infos show ?thesis by (simp add: succeed_run)
  next
    case None
    with non have "getNonce env s1 = (Inr n, s2)" by simp
    from getNonce_result [OF this] same n None infos show ?thesis by simp
  qed
qed

text \<open>
  No operation is built from details without a nonce for an account that has code:
  the build cannot read the on-chain nonce.
\<close>

lemma deployed_account_no_operation:
  assumes "d_nonce d = None" and "fst (getAccountAddress env s) = Inr a"
    and "getCode env a = Inr code" and "length code > 2"
  shows "createUnsignedUserOp env [d] n0 s \<noteq> (Inr userOp, s')"
proof
  assume "createUnsignedUserOp env [d] n0 s = (Inr userOp, s')"
  from nonce_supplied_or_zero [OF this] assms show False by auto
qed

text \<open>
  C6. Where the claim has the nonce read on-chain, the code builds no operation.
  \<open>getNonce\<close> calls \<open>accountContract.nonce()\<close> with no argument, and the one fragment
  named \<open>nonce\<close> in the ABI of the handle takes a \<open>uint192\<close>: the call rejects with
  \<open>no matching fragment\<close>. For the deployed example account and details without a
  nonce, where the claim and the second end-to-end scenario have the nonce 3, the build
  rejects with that error after the address and the handle are cached.
\<close>

theorem nonce_onchain_rejects:
  "d_nonce exampleDetails = None \<and>
   getCode (exampleEnv ''0x6080'') ''0x2222222222222222222222222222222222222222'' = Inr ''0x6080'' \<and>
   accountNonce (exampleEnv ''0x6080'') ''0x2222222222222222222222222222222222222222'' [0] = Inr 3 \<and>
   createUnsignedUserOp (exampleEnv ''0x6080'') [exampleDetails] None exampleAccount =
     (Inl (Rejected ''no matching fragment''), exampleResolved)"
  by (simp add: example_deployed) (simp add: exampleDetails_def exampleEnv_def)

text \<open>
  C2, as amended. In every operation built, \<open>preVerificationGas\<close> holds the promise of
  the call of \<open>getPreVerificationGas\<close> on the assembled partial record, a call that is
  not awaited. The promise settles to the number \<open>calcPreVerificationGas\<close> answers for
  the record with its properties resolved, that is with the sender's promise replaced by
  the address; every field of that record is a field of the operation.
\<close>

theorem preVerificationGas_promise:
  assumes "createUnsignedUserOp env infos n0 s = (Inr userOp, s')"
  shows "\<exists>a g. sender userOp = Promise (Inr a) \<and>
           calcPreVerificationGas env (withSender a userOp) = Inr g \<and>
           preVerificationGas userOp = Promise (Inr g)"
proof -
  from createUnsignedUserOp_steps [OF assms] obtain a g where
    "calcPreVerificationGas env (withSender a userOp) = Inr g" and
    "sender userOp = Promise (Inr a)" and "preVerificationGas userOp = Promise (Inr g)"
    by auto
  then show ?thesis by blast
qed

theorem preVerificationGas_promise_witness:
  "createUnsignedUserOp (exampleEnv ''0x'') [exampleDetails] None exampleAccount =
     (Inr exampleFirstOp, exampleResolved) \<and>
   sender exampleFirstOp = Promise (Inr ''0x2222222222222222222222222222222222222222'') \<and>
   calcPreVerificationGas (exampleEnv ''0x'')
     (withSender ''0x2222222222222222222222222222222222222222'' exampleFirstOp) =
     Inr 24440 \<and>
   preVerificationGas exampleFirstOp = Promise (Inr 24440)"
proof -
  note built = preVerificationGas_promise [OF example_first]
  have sp: "sender exampleFirstOp = Promise (Inr ''0x2222222222222222222222222222222222222222'')"
    by (simp add: exampleFirstOp_def)
  have calc: "calcPreVerificationGas (exampleEnv ''0x'')
      (withSender ''0x2222222222222222222222222222222222222222'' exampleFirstOp) =
      Inr 24440"
    by (simp add: exampleEnv_def withSender_def exampleFirstOp_def)
  from built sp calc
  have "preVerificationGas exampleFirstOp = Promise (Inr 24440)"
    by auto
  with sp calc example_first show ?thesis by simp
qed

text \<open>
  C2 as stated fails: in the operation built for the undeployed example account the
  field is not the number \<open>calcPreVerificationGas\<close> answers, 24440, but a promise.
\<close>

theorem preVerificationGas_resolved_counterexample:
  "createUnsignedUserOp (exampleEnv ''0x'') [exampleDetails] None exampleAccount =
     (Inr exampleFirstOp, exampleResolved) \<and>
   calcPreVerificationGas (exampleEnv ''0x'')
     (withSender ''0x2222222222222222222222222222222222222222'' exampleFirstOp) = Inr 24440 \<and>
   preVerificationGas exampleFirstOp \<noteq> Plain 24440"
  by (simp add: example_first) (simp add: exampleEnv_def withSender_def exampleFirstOp_def)

text \<open>
  C9, as amended. In every operation built, \<open>sender\<close> holds the promise of a call of
  \<open>getAccountAddress\<close> that is not awaited. The promise settles to the address that
  \<open>getAccountAddress\<close> answers on the instance, before the build and after it.
\<close>

theorem sender_promise_of_address:
  assumes "createUnsignedUserOp env infos n0 s = (Inr userOp, s')"
  shows "\<exists>a. sender userOp = Promise (Inr a) \<and>
           fst (getAccountAddress env s) = Inr a \<and> fst (getAccountAddress env s') = Inr a"
proof -
  from createUnsignedUserOp_steps [OF assms] obtain d cd cgl s1 n s2 a where
    enc: "encodeUserOpCallDataAndGasLimit env (Some d) s = (Inr (cd, cgl), s1)" and
    non: "(case d_nonce d of Some k \<Rightarrow> succeed k | None \<Rightarrow> getNonce env) s1 = (Inr n, s2)" and
    addr: "getAccountAddress env s2 = (Inr a, s')" and
    sp: "sender userOp = Promise (Inr a)"
    by auto
  note rules = reflp_sameInstance transp_sameInstance sameInstance_getAccountAddress
    sameInstance_getAccountContract
  have "sameInstance env s s1"
    using preserves_encodeUserOpCallDataAndGasLimit [OF rules] enc
    by (auto simp: preserves_def)
  moreover have "sameInstance env s1 s2"
  proof (cases "d_nonce d")
    case None
    with non preserves_getNonce [OF rules] show ?thesis by (auto simp: preserves_def)
  next
    case (Some k)
    with non reflp_sameInstance [of env] show ?thesis
      by (auto simp: succeed_run reflp_def)
  qed
  ultimately have "fst (getAccountAddress env s) = fst (getAccountAddress env s2)"
    by (simp add: sameInstance_def)
  with addr getAccountAddress_again [OF addr] sp show ?thesis by simp
qed

theorem sender_promise_of_address_witness:
  "createUnsignedUserOp (exampleEnv ''0x'') [exampleDetails] None exampleAccount =
     (Inr exampleFirstOp, exampleResolved) \<and>
   sender exampleFirstOp = Promise (Inr ''0x2222222222222222222222222222222222222222'') \<and>
   fst (getAccountAddress (exampleEnv ''0x'') exampleAccount) =
     Inr ''0x2222222222222222222222222222222222222222''"
proof -
  note built = sender_promise_of_address [OF example_first]
  have "sender exampleFirstOp = Promise (Inr ''0x2222222222222222222222222222222222222222'')"
    by (simp add: exampleFirstOp_def)
  with built example_first show ?thesis by auto
qed

text \<open>
  C9 as stated fails: in the operation built for the undeployed example account the
  sender is not the address string that \<open>getAccountAddress\<close> answers, but a promise.
\<close>

theorem sender_resolved_counterexample:
  "createUnsignedUserOp (exampleEnv ''0x'') [exampleDetails] None exampleAccount =
     (Inr exampleFirstOp, exampleResolved) \<and>
   getAccountAddress (exampleEnv ''0x'') exampleResolved =
     (Inr ''0x2222222222222222222222222222222222222222'', exampleResolved) \<and>
   sender exampleFirstOp \<noteq> Plain ''0x2222222222222222222222222222222222222222''"
  by (simp add: example_first)
     (simp add: getAccountAddress_def truthy_def exampleResolved_def exampleFirstOp_def)

text \<open>
  C3, as amended. On an instance constructed with the factory address
  \<open>0x000000a56Aaca3e9a4C479ea6b6CD0DbcB6634F5\<close>, for every index argument,
  \<open>createInitCode\<close> returns the concatenation of that factory address and the encoding
  of the call \<open>deployCounterFactualAccount\<close> with the module address, the module setup
  data (\<open>0x2ede3bc0\<close>, twelve zero bytes, the 20 bytes of the owner's address) and the
  index 0; it rejects when the encoder does. The index argument is not used.
\<close>

theorem createInitCode_index_zero:
  assumes "factoryAddress s = ''0x000000a56Aaca3e9a4C479ea6b6CD0DbcB6634F5''"
  shows "createInitCode env index s =
     (case encodeFunctionData env ''deployCounterFactualAccount''
             [AbiAddress (ecdsaOwnership s),
              AbiBytes (''0x2ede3bc0000000000000000000000000'' @ take 40 (drop 2 (owner_address s))),
              AbiUint 0] of
        Inl m \<Rightarrow> (Inl (Rejected m), s)
      | Inr enc \<Rightarrow> (Inr (concatHex [factoryAddress s, enc]), s))"
  unfolding assms createInitCode_run moduleSetupData_def ..

theorem createInitCode_index_zero_witness:
  "factoryAddress exampleAccount = ''0x000000a56Aaca3e9a4C479ea6b6CD0DbcB6634F5'' \<and>
   createInitCode (exampleEnv ''0x'') 1 exampleAccount =
     (Inr (concatHex [factoryAddress exampleAccount,
        ''0xdf20ffbc0000001c5b32F37F5beA87BDD5374eB2aC54eA8e2ede3bc0000000000000000000000000AAAAAAAAAAAAAAAAAAAAAAAAAAAAAAAAAAAAAAAA0'']),
      exampleAccount)"
proof -
  have fa: "factoryAddress exampleAccount = ''0x000000a56Aaca3e9a4C479ea6b6CD0DbcB6634F5''"
    by (simp add: example_defs)
  have enc: "encodeFunctionData (exampleEnv ''0x'') ''deployCounterFactualAccount''
      [AbiAddress (ecdsaOwnership exampleAccount),
       AbiBytes (''0x2ede3bc0000000000000000000000000'' @ take 40 (drop 2 (owner_address exampleAccount))),
       AbiUint 0] =
     Inr ''0xdf20ffbc0000001c5b32F37F5beA87BDD5374eB2aC54eA8e2ede3bc0000000000000000000000000AAAAAAAAAAAAAAAAAAAAAAAAAAAAAAAAAAAAAAAA0''"
    by (simp add: example_defs hexDigits_values)
  show ?thesis
    using createInitCode_index_zero [OF fa, of "exampleEnv ''0x''" 1] fa
    unfolding enc by simp
qed

text \<open>
  C3 as stated fails: with the index argument 1 the result is not the concatenation of
  the factory address and the encoding of the call that carries the index 1.
\<close>

theorem createInitCode_index_counterexample:
  "encodeFunctionData (exampleEnv ''0x'') ''deployCounterFactualAccount''
     [AbiAddress (ecdsaOwnership exampleAccount), AbiBytes (moduleSetupData exampleAccount),
      AbiUint 1] =
     Inr ''0xdf20ffbc0000001c5b32F37F5beA87BDD5374eB2aC54eA8e2ede3bc0000000000000000000000000AAAAAAAAAAAAAAAAAAAAAAAAAAAAAAAAAAAAAAAA1'' \<and>
   fst (createInitCode (exampleEnv ''0x'') 1 exampleAccount) \<noteq>
     Inr (concatHex [factoryAddress exampleAccount,
        ''0xdf20ffbc0000001c5b32F37F5beA87BDD5374eB2aC54eA8e2ede3bc0000000000000000000000000AAAAAAAAAAAAAAAAAAAAAAAAAAAAAAAAAAAAAAAA1''])"
  by (simp add: createInitCode_run concatHex_def moduleSetupData_def example_defs hexDigits_values)

text \<open>
  C7. Once \<open>getAccountAddress\<close> has answered an address on an instance (an address is
  never the empty string), it answers the same address after any sequence of calls of
  the methods of the class on that instance, in whatever environments those calls ran.
  The answer is the cached one: it is the same in every environment, also in one whose
  factory cannot be reached, and the call leaves the instance as it is.
\<close>

theorem getAccountAddress_idempotent:
  assumes "getAccountAddress env s = (Inr a, s1)" and "a \<noteq> []"
  shows "getAccountAddress env' (performAll calls s1) = (Inr a, performAll calls s1)"
proof -
  have "accountAddress s1 = Some a"
    using assms(1) by (rule getAccountAddress_caches)
  moreover have "stillCached a s1 (performAll calls s1)"
    by (rule preserves_performAll)
       (simp_all add: reflp_stillCached transp_stillCached stillCached_getAccountAddress
                      stillCached_getAccountContract assms(2))
  ultimately have "accountAddress (performAll calls s1) = Some a"
    by (simp add: stillCached_def)
  then show ?thesis using assms(2) by (rule getAccountAddress_cached)
qed

theorem getAccountAddress_idempotent_witness:
  "getAccountAddress (exampleEnv ''0x'') exampleAccount =
     (Inr ''0x2222222222222222222222222222222222222222'',
      exampleAccount\<lparr>accountAddress := Some ''0x2222222222222222222222222222222222222222''\<rparr>) \<and>
   ''0x2222222222222222222222222222222222222222'' \<noteq> [] \<and>
   getAccountAddress unreachableEnv
     (performAll [(exampleEnv ''0x6080'', CreateUnsignedUserOp [exampleDetails] None),
                  (unreachableEnv, GetNonce), (exampleEnv ''0x'', CreateInitCode 1)]
        (exampleAccount\<lparr>accountAddress := Some ''0x2222222222222222222222222222222222222222''\<rparr>)) =
     (Inr ''0x2222222222222222222222222222222222222222'',
      performAll [(exampleEnv ''0x6080'', CreateUnsignedUserOp [exampleDetails] None),
                  (unreachableEnv, GetNonce), (exampleEnv ''0x'', CreateInitCode 1)]
        (exampleAccount\<lparr>accountAddress := Some ''0x2222222222222222222222222222222222222222''\<rparr>))"
proof -
  have first: "getAccountAddress (exampleEnv ''0x'') exampleAccount =
     (Inr ''0x2222222222222222222222222222222222222222'',
      exampleAccount\<lparr>accountAddress := Some ''0x2222222222222222222222222222222222222222''\<rparr>)"
    by (simp add: getAccountAddress_def truthy_def example_defs)
  have nonempty: "''0x2222222222222222222222222222222222222222'' \<noteq> []"
    by simp
  from getAccountAddress_idempotent [OF first nonempty] first nonempty
  show ?thesis by blast
qed

text \<open>
  The factory address of the init-code is the literal also on an instance constructed
  with another factory address, from which \<open>getAccountAddress\<close> derives the sender.
\<close>

lemma createInitCode_other_factory:
  "fst (createInitCode (exampleEnv ''0x'') 0
         (exampleAccount\<lparr>factoryAddress := ''0x1111111111111111111111111111111111111111''\<rparr>)) =
     Inr (initCode exampleFirstOp) \<and>
   take 42 (initCode exampleFirstOp) = ''0x000000a56Aaca3e9a4C479ea6b6CD0DbcB6634F5''"
  by (simp add: createInitCode_run concatHex_def moduleSetupData_def example_defs
                hexDigits_values exampleFirstOp_def)

text \<open>The batch error comes from the guard only: no later step rejects with it.\<close>

lemma neverRejects_simple:
  "neverRejects (succeed x) e" "neverRejects (field f) e"
  "neverRejects (external r) BatchNotSupported" "neverRejects (start m) e"
  "neverRejects (throw e') e \<longleftrightarrow> e' \<noteq> e"
  by (auto simp: neverRejects_def succeed_run field_run external_Inl start_run throw_run)

lemma neverRejects_await:
  assumes "neverRejects m e" and "\<And>x s s1. m s = (Inr x, s1) \<Longrightarrow> neverRejects (f x) e"
  shows "neverRejects (await m f) e"
  using assms by (auto simp: neverRejects_def await_Inl)

lemma neverRejects_getAccountAddress: "neverRejects (getAccountAddress env) BatchNotSupported"
  by (auto simp: neverRejects_def getAccountAddress_def split: if_splits sum.splits)

lemma neverRejects_getAccountContract: "neverRejects (getAccountContract env) BatchNotSupported"
  using neverRejects_getAccountAddress [of env]
  by (auto simp: neverRejects_def dest!: getAccountContract_run)

lemma neverRejects_encodeUserOpCallDataAndGasLimit:
  "neverRejects (encodeUserOpCallDataAndGasLimit env d) BatchNotSupported"
  unfolding encodeUserOpCallDataAndGasLimit_def encodeExecute_def
  by (auto split: option.splits
           intro!: neverRejects_await neverRejects_getAccountAddress neverRejects_getAccountContract
           simp: neverRejects_simple)

lemma neverRejects_getNonce: "neverRejects (getNonce env) BatchNotSupported"
  unfolding getNonce_def isAccountDeploied_def contractNonce_def
  by (auto intro!: neverRejects_await neverRejects_getAccountAddress neverRejects_getAccountContract
           simp: neverRejects_simple)

lemma neverRejects_createInitCode: "neverRejects (createInitCode env index) BatchNotSupported"
  by (auto simp: neverRejects_def createInitCode_run split: sum.splits)

lemma neverRejects_estimateCreationGas:
  "neverRejects (estimateCreationGas env ic) BatchNotSupported"
  unfolding estimateCreationGas_def by (auto simp: neverRejects_simple)

lemma neverRejects_getPreVerificationGas:
  "sender userOp \<noteq> Promise (Inl BatchNotSupported) \<Longrightarrow>
   neverRejects (getPreVerificationGas env userOp) BatchNotSupported"
  unfolding getPreVerificationGas_def resolveProperties_def
  by (auto split: js_value.splits sum.splits intro!: neverRejects_await simp: neverRejects_simple)

lemma neverRejects_createUnsignedUserOp:
  "neverRejects (createUnsignedUserOp env [d] n0) BatchNotSupported"
proof -
  have addr: "q \<noteq> Inl BatchNotSupported" if "getAccountAddress env s = (q, s')" for q s s'
    using that neverRejects_getAccountAddress [of env] by (auto simp: neverRejects_def)
  show ?thesis
    unfolding createUnsignedUserOp_def Let_def getVerificationGasLimit_def
    by (auto split: option.splits
             intro!: neverRejects_await neverRejects_encodeUserOpCallDataAndGasLimit
                     neverRejects_getNonce neverRejects_createInitCode
                     neverRejects_estimateCreationGas neverRejects_getPreVerificationGas
             simp: neverRejects_simple start_run dest: addr)
qed

text \<open>
  C10. \<open>createUnsignedUserOp\<close> rejects with the batch error exactly when the input list
  has more than one element. The empty list passes the guard: the build goes on to
  \<open>infos[0]\<close>, which is \<open>undefined\<close>, and rejects when the first property of it is
  read, with the instance unchanged.
\<close>

theorem batch_error_iff:
  "(fst (createUnsignedUserOp env infos n0 s) = Inl BatchNotSupported) = (1 < length infos) \<and>
   createUnsignedUserOp env [] n0 s = (Inl UndefinedRead, s)"
proof -
  have empty: "createUnsignedUserOp env [] n0 s = (Inl UndefinedRead, s)"
    by (simp add: createUnsignedUserOp_def encodeUserOpCallDataAndGasLimit_def await_def throw_def)
  have "(fst (createUnsignedUserOp env infos n0 s) = Inl BatchNotSupported) = (1 < length infos)"
  proof (cases infos)
    case Nil
    with empty show ?thesis by simp
  next
    case (Cons d rest)
    show ?thesis
    proof (cases rest)
      case Nil
      have "fst (createUnsignedUserOp env [d] n0 s) \<noteq> Inl BatchNotSupported"
      proof
        assume "fst (createUnsignedUserOp env [d] n0 s) = Inl BatchNotSupported"
        then have "createUnsignedUserOp env [d] n0 s =
            (Inl BatchNotSupported, snd (createUnsignedUserOp env [d] n0 s))"
          by (simp add: prod_eq_iff)
        with neverRejects_createUnsignedUserOp [of env d n0] show False
          by (simp add: neverRejects_def)
      qed
      with Cons Nil show ?thesis by simp
    next
      case (Cons d' rest')
      with \<open>infos = d # rest\<close> show ?thesis
        by (simp add: createUnsignedUserOp_def throw_def)
    qed
  qed
  then show ?thesis using empty by (rule conjI)
qed

theorem batch_error_iff_witness:
  "fst (createUnsignedUserOp (exampleEnv ''0x'') [exampleDetails] None exampleAccount) \<noteq>
     Inl BatchNotSupported \<and>
   length [exampleDetails] = 1 \<and>
   createUnsignedUserOp (exampleEnv ''0x'') [] None exampleAccount =
     (Inl UndefinedRead, exampleAccount)"
  using batch_error_iff [of "exampleEnv ''0x''" "[exampleDetails]" None exampleAccount]
  by simp

end
